theory Spec2Isabelle
  imports Complex_Main
begin

section \<open>Price prediction pipeline of \<^verbatim>\<open>fynesse/address.py\<close>\<close>

text \<open>
  The module predicts a house price from comparable sales. Its own code is glue around
  pandas, numpy, scikit-learn, statsmodels and the sibling modules \<^verbatim>\<open>fynesse.access\<close> and
  \<^verbatim>\<open>fynesse.assess\<close>. The embedding translates the glue function by function and takes
  every call that leaves the module as a field of the record \<open>externals\<close>; a call that can
  raise returns \<open>error + 'a\<close>, with \<open>Inl\<close> the exception.

  Numbers are real numbers: rounding, overflow to infinity of finite operands and the sign
  of zero are not modelled. The special values that numpy's arithmetic produces instead
  of raising (\<open>inf\<close>, \<open>-inf\<close>, \<open>nan\<close>) are values of the type \<open>npfloat\<close>.
\<close>

subsection \<open>Exceptions\<close>

datatype error =
    ValueError
  | TypeError
  | IndexError
  | KeyError
  | ZeroDivisionError
  | ExternalError string

subsection \<open>numpy scalars with their special values\<close>

datatype npfloat = Fin real | PInf | NInf | NaN

fun is_fin :: "npfloat \<Rightarrow> bool" where
  "is_fin (Fin x) = True"
| "is_fin PInf = False"
| "is_fin NInf = False"
| "is_fin NaN = False"

fun np_neg :: "npfloat \<Rightarrow> npfloat" where
  "np_neg (Fin x) = Fin (- x)"
| "np_neg PInf = NInf"
| "np_neg NInf = PInf"
| "np_neg NaN = NaN"

fun np_abs :: "npfloat \<Rightarrow> npfloat" where
  "np_abs (Fin x) = Fin \<bar>x\<bar>"
| "np_abs PInf = PInf"
| "np_abs NInf = PInf"
| "np_abs NaN = NaN"

fun np_add :: "npfloat \<Rightarrow> npfloat \<Rightarrow> npfloat" where
  "np_add (Fin a) (Fin b) = Fin (a + b)"
| "np_add (Fin a) PInf = PInf"
| "np_add (Fin a) NInf = NInf"
| "np_add PInf (Fin b) = PInf"
| "np_add PInf PInf = PInf"
| "np_add PInf NInf = NaN"
| "np_add NInf (Fin b) = NInf"
| "np_add NInf NInf = NInf"
| "np_add NInf PInf = NaN"
| "np_add NaN y = NaN"
| "np_add x NaN = NaN"

definition np_sub :: "npfloat \<Rightarrow> npfloat \<Rightarrow> npfloat" where
  "np_sub x y = np_add x (np_neg y)"

text \<open>The sign of a scalar: \<open>Some True\<close> positive, \<open>Some False\<close> negative, \<open>None\<close> for
  zero and \<open>nan\<close>.\<close>

fun np_sign :: "npfloat \<Rightarrow> bool option" where
  "np_sign (Fin x) = (if 0 < x then Some True else if x < 0 then Some False else None)"
| "np_sign PInf = Some True"
| "np_sign NInf = Some False"
| "np_sign NaN = None"

definition signed_inf :: "bool \<Rightarrow> npfloat" where
  "signed_inf positive = (if positive then PInf else NInf)"

fun np_mul :: "npfloat \<Rightarrow> npfloat \<Rightarrow> npfloat" where
  "np_mul (Fin a) (Fin b) = Fin (a * b)"
| "np_mul NaN y = NaN"
| "np_mul x NaN = NaN"
| "np_mul x y =
     (case (np_sign x, np_sign y) of
        (Some s, Some t) \<Rightarrow> signed_inf (s = t)
      | _ \<Rightarrow> NaN)"

text \<open>
  Division of numpy scalars never raises: a finite non-zero numerator over zero is an
  infinity, zero over zero and infinity over infinity are \<open>nan\<close> (numpy emits a
  \<^verbatim>\<open>RuntimeWarning\<close>, which is not an exception).
\<close>

fun np_div :: "npfloat \<Rightarrow> npfloat \<Rightarrow> npfloat" where
  "np_div NaN y = NaN"
| "np_div x NaN = NaN"
| "np_div (Fin a) (Fin b) =
     (if b \<noteq> 0 then Fin (a / b)
      else if 0 < a then PInf else if a < 0 then NInf else NaN)"
| "np_div (Fin a) y = Fin 0"
| "np_div x (Fin b) =
     (case np_sign x of
        Some s \<Rightarrow> signed_inf (s = (0 \<le> b))
      | None \<Rightarrow> NaN)"
| "np_div x y = NaN"

subsection \<open>numpy array helpers\<close>

text \<open>\<^verbatim>\<open>a[i]\<close> and \<^verbatim>\<open>np.delete(a, i, axis=0)\<close> for a non-negative index: both raise
  \<^verbatim>\<open>IndexError\<close> out of range.\<close>

definition np_index :: "'a list \<Rightarrow> nat \<Rightarrow> error + 'a" where
  "np_index xs i = (if i < length xs then Inr (xs ! i) else Inl IndexError)"

definition np_delete :: "'a list \<Rightarrow> nat \<Rightarrow> error + 'a list" where
  "np_delete xs i =
     (if i < length xs then Inr (take i xs @ drop (Suc i) xs) else Inl IndexError)"

text \<open>\<^verbatim>\<open>np.argmax\<close> of a boolean array: the index of the first \<^verbatim>\<open>True\<close>, and \<open>0\<close> when
  there is none (every entry is then a first maximum); an empty array raises
  \<^verbatim>\<open>ValueError\<close>.\<close>

fun first_max :: "bool list \<Rightarrow> nat" where
  "first_max [] = 0"
| "first_max (b # bs) = (if b then 0 else if True \<in> set bs then Suc (first_max bs) else 0)"

definition np_argmax :: "bool list \<Rightarrow> error + nat" where
  "np_argmax bs = (if bs = [] then Inl ValueError else Inr (first_max bs))"

subsection \<open>Tables\<close>

text \<open>A calendar date is its day number, so that \<^verbatim>\<open>date - relativedelta(days=n)\<close> is a
  subtraction.\<close>

type_synonym date = int

text \<open>
  Modelled from the spec: the columns of the table that
  \<^verbatim>\<open>access.price_coordinates_data_to_df\<close> returns (\<^verbatim>\<open>fynesse/access.py\<close> is not among
  the sources); section 6 of the specification lists them. A table is the list of its
  rows, and after \<^verbatim>\<open>reset_index\<close> a row's label is its position.
\<close>

record sample =
  latitude :: real
  longitude :: real
  date_of_transfer :: date
  property_type :: string
  price :: real
  new_build_flag :: string
  tenure_type :: string

text \<open>A frame of named columns, for the encoded property features: a cell is a category
  string or the number that replaced it.\<close>

datatype cell = Str string | Num int

type_synonym frame = "(string \<times> cell list) list"

definition columns :: "frame \<Rightarrow> string list" where
  "columns df = map fst df"

text \<open>\<^verbatim>\<open>DataFrame.replace\<close> with a nested dictionary \<^verbatim>\<open>{column: {old: new}}\<close>: in a column
  the dictionary names, a cell equal to a key becomes its value; every other cell is kept.\<close>

definition replace_cells :: "(cell \<times> cell) list \<Rightarrow> cell list \<Rightarrow> cell list" where
  "replace_cells m cs = map (\<lambda>c. case map_of m c of None \<Rightarrow> c | Some v \<Rightarrow> v) cs"

definition df_replace :: "(string \<times> (cell \<times> cell) list) list \<Rightarrow> frame \<Rightarrow> frame" where
  "df_replace replacements df =
     map (\<lambda>(name, cs). case map_of replacements name of
                           None \<Rightarrow> (name, cs)
                         | Some m \<Rightarrow> (name, replace_cells m cs)) df"

text \<open>\<^verbatim>\<open>DataFrame.rename(columns=...)\<close> returns a new frame and leaves its receiver as it
  is.\<close>

definition df_rename :: "(string \<times> string) list \<Rightarrow> frame \<Rightarrow> frame" where
  "df_rename renaming df =
     map (\<lambda>(name, cs). case map_of renaming name of
                           None \<Rightarrow> (name, cs)
                         | Some name' \<Rightarrow> (name', cs)) df"

text \<open>\<^verbatim>\<open>Series.between\<close> is inclusive at both ends.\<close>

definition between :: "real \<Rightarrow> real \<Rightarrow> real \<Rightarrow> bool" where
  "between x left right = (left \<le> x \<and> x \<le> right)"

text \<open>\<^verbatim>\<open>Series.idxmax\<close> of a boolean series over the labels \<open>0, 1, ...\<close>: the label of the
  first maximum; an empty series raises \<^verbatim>\<open>ValueError\<close>.\<close>

definition idxmax :: "bool list \<Rightarrow> error + nat" where
  "idxmax flags = (if flags = [] then Inl ValueError else Inr (first_max flags))"

subsection \<open>The calls that leave the module\<close>

text \<open>
  Modelled from the spec: the conditions built by \<^verbatim>\<open>access.greater_equal_condition\<close>
  (\<^verbatim>\<open>fynesse/access.py\<close> is not among the sources); section 6 describes a condition as a
  field, a comparator and a value. \<open>GreaterEqual a b\<close> stands for \<open>a >= b\<close>.
\<close>

datatype operand = Field string | DateValue date | Number real

datatype condition = GreaterEqual operand operand

text \<open>What \<^verbatim>\<open>PCA(...)\<close> holds after \<^verbatim>\<open>fit_transform\<close>, as far as the module reads it:
  \<^verbatim>\<open>explained_variance_ratio_\<close>, and the rows of \<^verbatim>\<open>pca.transform(df)\<close>.\<close>

record pca_result =
  explained_variance_ratio :: "npfloat list"
  transformed :: "real list list"

text \<open>
  The collaborators, one field per call site. \<open>'p\<close> is whatever
  \<^verbatim>\<open>assess.count_pois_by_features\<close> returns for one sample, \<open>'r\<close> the raw result of a query.
  \<^item> \<open>get_credentials\<close>: \<^verbatim>\<open>access.get_credentials("credentials.yaml")\<close>, a dictionary;
  \<^item> \<open>create_connection\<close>: \<^verbatim>\<open>access.create_connection\<close> with user, password, host, port
    and database;
  \<^item> \<open>query_table\<close>: \<^verbatim>\<open>access.query_table(conn, 'prices_coordinates_data', ...)\<close> with
    the conditions and the row limit;
  \<^item> \<open>price_coordinates_data_to_df\<close>: the conversion of the raw rows into the table;
  \<^item> \<open>count_pois\<close>: \<^verbatim>\<open>assess.count_pois_by_features(assess.get_pois(...), ...)\<close> at a
    latitude and a longitude;
  \<^item> \<open>fit_pca\<close>: lines 84 to 92 and the \<^verbatim>\<open>pca.transform(df)\<close> of line 95 (the feature
    table, its correlation matrix without the all-\<^verbatim>\<open>nan\<close> rows and columns, the fit);
  \<^item> \<open>ols_predict\<close>: \<^verbatim>\<open>sm.OLS(prices, features).fit_regularized(alpha=penalty,
    L1_wt=0).predict(target_features)[0]\<close>, with the penalty first;
  \<^item> \<open>corrcoef\<close>: \<^verbatim>\<open>np.corrcoef(prices, predictions)[0][1]\<close>.
\<close>

record ('p, 'r) externals =
  get_credentials :: "error + (string \<rightharpoonup> string)"
  create_connection :: "string \<Rightarrow> string \<Rightarrow> string \<Rightarrow> string \<Rightarrow> string \<Rightarrow> error + unit"
  query_table :: "condition list \<Rightarrow> nat \<Rightarrow> error + 'r"
  price_coordinates_data_to_df :: "'r \<Rightarrow> error + sample list"
  count_pois :: "real \<Rightarrow> real \<Rightarrow> error + 'p"
  fit_pca :: "'p list \<Rightarrow> frame \<Rightarrow> error + pca_result"
  ols_predict :: "real \<Rightarrow> real list \<Rightarrow> real list list \<Rightarrow> real list \<Rightarrow> error + npfloat"
  corrcoef :: "real list \<Rightarrow> npfloat list \<Rightarrow> npfloat"

subsection \<open>\<^verbatim>\<open>property_feature_map\<close>\<close>

text \<open>
  Lines 97 to 102. The two columns are columns of every sample table, so the selection of
  line 99 cannot raise. Line 101 calls \<^verbatim>\<open>rename\<close> and drops what it returns; the function
  returns \<open>res\<close> as line 100 left it.
\<close>

definition property_feature_map :: "sample list \<Rightarrow> frame" where
  "property_feature_map training_rows =
     (let replacements =
            [(''new_build_flag'', [(Str ''N'', Num 0), (Str ''Y'', Num 1)]),
             (''tenure_type'', [(Str ''L'', Num 0), (Str ''F'', Num 1)])];
          res = [(''new_build_flag'', map (\<lambda>s. Str (new_build_flag s)) training_rows),
                 (''tenure_type'', map (\<lambda>s. Str (tenure_type s)) training_rows)];
          res = df_replace replacements res;
          dropped = df_rename [(''tenure_type'', ''freehold_flag'')] res
      in res)"

subsection \<open>\<^verbatim>\<open>get_training_samples\<close>\<close>

datatype conn_state = NoConnection | ConnOpen | ConnClosed

definition dict_get :: "(string \<rightharpoonup> 'v) \<Rightarrow> string \<Rightarrow> error + 'v" where
  "dict_get d k = (case d k of None \<Rightarrow> Inl KeyError | Some v \<Rightarrow> Inr v)"

text \<open>Line 71: the five subscripts are evaluated in the order written, then the
  connection is opened.\<close>

definition connect :: "('p, 'r) externals \<Rightarrow> (string \<rightharpoonup> string) \<Rightarrow> error + unit" where
  "connect ext credentials =
     (case dict_get credentials ''username'' of Inl e \<Rightarrow> Inl e | Inr user \<Rightarrow>
      case dict_get credentials ''password'' of Inl e \<Rightarrow> Inl e | Inr password \<Rightarrow>
      case dict_get credentials ''url'' of Inl e \<Rightarrow> Inl e | Inr host \<Rightarrow>
      case dict_get credentials ''port'' of Inl e \<Rightarrow> Inl e | Inr port \<Rightarrow>
      case dict_get credentials ''name'' of Inl e \<Rightarrow> Inl e | Inr database \<Rightarrow>
      create_connection ext user password host port database)"

definition window_conditions :: "real \<Rightarrow> real \<Rightarrow> date \<Rightarrow> int \<Rightarrow> real \<Rightarrow> condition list" where
  "window_conditions lat lon date date_range area_range =
     [GreaterEqual (Field ''date_of_transfer'') (DateValue (date - date_range)),
      GreaterEqual (DateValue (date + date_range)) (Field ''date_of_transfer''),
      GreaterEqual (Field ''latitude'') (Number (lat - area_range)),
      GreaterEqual (Number (lat + area_range)) (Field ''latitude''),
      GreaterEqual (Field ''longitude'') (Number (lon - area_range)),
      GreaterEqual (Number (lon + area_range)) (Field ''longitude'')]"

text \<open>
  Lines 69 to 81, with the state of the connection made explicit: the first component
  of the result is the state in which the function leaves the connection it opened on
  line 71, the second what it returns or raises. \<^verbatim>\<open>conn.close()\<close> is line 78, a plain
  statement after the query and the conversion of line 77.
\<close>

definition get_training_samples ::
  "('p, 'r) externals \<Rightarrow> real \<Rightarrow> real \<Rightarrow> date \<Rightarrow> string \<Rightarrow> int \<Rightarrow> real \<Rightarrow> nat
     \<Rightarrow> conn_state \<times> (error + sample list)" where
  "get_training_samples ext lat lon date ptype date_range area_range limit =
     (case get_credentials ext of Inl e \<Rightarrow> (NoConnection, Inl e) | Inr credentials \<Rightarrow>
      case connect ext credentials of Inl e \<Rightarrow> (NoConnection, Inl e) | Inr conn \<Rightarrow>
      let conditions = window_conditions lat lon date date_range area_range in
      case query_table ext conditions limit of Inl e \<Rightarrow> (ConnOpen, Inl e) | Inr rows \<Rightarrow>
      case price_coordinates_data_to_df ext rows of Inl e \<Rightarrow> (ConnOpen, Inl e) | Inr samples \<Rightarrow>
      (ConnClosed, Inr (filter (\<lambda>s. property_type s = ptype) samples)))"

subsection \<open>\<^verbatim>\<open>convert_to_principle_components\<close>\<close>

text \<open>\<^verbatim>\<open>explained_variance > threshold\<close>, entry by entry; a comparison with \<open>nan\<close> is
  false.\<close>

fun np_greater :: "npfloat \<Rightarrow> real \<Rightarrow> bool" where
  "np_greater (Fin x) t = (t < x)"
| "np_greater PInf t = True"
| "np_greater NInf t = False"
| "np_greater NaN t = False"

fun np_cumsum_from :: "npfloat \<Rightarrow> npfloat list \<Rightarrow> npfloat list" where
  "np_cumsum_from acc [] = []"
| "np_cumsum_from acc (x # xs) = np_add acc x # np_cumsum_from (np_add acc x) xs"

text \<open>Lines 93 and 94: the component count.\<close>

definition cutoff_of :: "npfloat list \<Rightarrow> real \<Rightarrow> error + nat" where
  "cutoff_of ratios threshold =
     (let explained_variance = np_cumsum_from (Fin 0) ratios in
      case np_argmax (map (\<lambda>v. np_greater v threshold) explained_variance) of
        Inl e \<Rightarrow> Inl e
      | Inr first \<Rightarrow> Inr (first + 1))"

definition convert_to_principle_components ::
  "('p, 'r) externals \<Rightarrow> 'p list \<Rightarrow> frame \<Rightarrow> real \<Rightarrow> error + real list list" where
  "convert_to_principle_components ext pois_by_features encoded_property_features threshold =
     (case fit_pca ext pois_by_features encoded_property_features of Inl e \<Rightarrow> Inl e | Inr pca \<Rightarrow>
      case cutoff_of (explained_variance_ratio pca) threshold of Inl e \<Rightarrow> Inl e | Inr cutoff \<Rightarrow>
      Inr (map (take cutoff) (transformed pca)))"

subsection \<open>\<^verbatim>\<open>cross_val\<close>\<close>

text \<open>\<^verbatim>\<open>100 * abs(prediction - target_price) / target_price\<close> on numpy scalars
  (lines 40 and 61).\<close>

definition percentage_error_of :: "npfloat \<Rightarrow> real \<Rightarrow> npfloat" where
  "percentage_error_of prediction target_price =
     np_div (np_mul (Fin 100) (np_abs (np_sub prediction (Fin target_price)))) (Fin target_price)"

text \<open>One pass of the loop body, lines 54 to 61: the prediction for sample \<open>i\<close> from a
  fit on all the others, and its percentage error.\<close>

definition leave_one_out ::
  "('p, 'r) externals \<Rightarrow> real \<Rightarrow> real list \<Rightarrow> real list list \<Rightarrow> nat \<Rightarrow> real list
     \<Rightarrow> error + (npfloat \<times> npfloat)" where
  "leave_one_out ext penalty prices features i target_features =
     (case np_index prices i of Inl e \<Rightarrow> Inl e | Inr target_price \<Rightarrow>
      case np_delete features i of Inl e \<Rightarrow> Inl e | Inr train_features \<Rightarrow>
      case np_delete prices i of Inl e \<Rightarrow> Inl e | Inr train_prices \<Rightarrow>
      case ols_predict ext penalty train_prices train_features target_features of
        Inl e \<Rightarrow> Inl e
      | Inr prediction \<Rightarrow> Inr (prediction, percentage_error_of prediction target_price))"

text \<open>The loop of lines 53 to 62 over \<^verbatim>\<open>enumerate(features)\<close>, with the two accumulators
  \<open>predictions\<close> and \<open>percentage_errors\<close>; the first exception ends it.\<close>

fun cross_val_loop ::
  "('p, 'r) externals \<Rightarrow> real \<Rightarrow> real list \<Rightarrow> real list list \<Rightarrow> (nat \<times> real list) list
     \<Rightarrow> npfloat list \<Rightarrow> npfloat list \<Rightarrow> error + (npfloat list \<times> npfloat list)" where
  "cross_val_loop ext penalty prices features [] predictions percentage_errors =
     Inr (predictions, percentage_errors)"
| "cross_val_loop ext penalty prices features ((i, target_features) # rest)
       predictions percentage_errors =
     (case leave_one_out ext penalty prices features i target_features of
        Inl e \<Rightarrow> Inl e
      | Inr (prediction, percentage_error) \<Rightarrow>
          cross_val_loop ext penalty prices features rest
            (predictions[i := prediction]) (percentage_errors @ [percentage_error]))"

text \<open>Python's \<^verbatim>\<open>sum\<close>: from the integer \<open>0\<close>, left to right. The model adds exact
  reals, for which the order of the summands does not show in the result; in \<^verbatim>\<open>float64\<close>
  each addition rounds and the order shows in the last digits. No property below rests
  on the order of the summands.\<close>

definition py_sum :: "npfloat list \<Rightarrow> npfloat" where
  "py_sum xs = foldl np_add (Fin 0) xs"

text \<open>
  Line 64. With no percentage error both operands are Python integers and \<^verbatim>\<open>0 / 0\<close>
  raises; otherwise the sum is a numpy scalar and the division is numpy's.
\<close>

definition average :: "npfloat list \<Rightarrow> error + npfloat" where
  "average percentage_errors =
     (if percentage_errors = [] then Inl ZeroDivisionError
      else Inr (np_div (py_sum percentage_errors) (Fin (real (length percentage_errors)))))"

text \<open>Lines 50 to 65. The parameter \<open>ridge\<close> is not read.\<close>

definition cross_val ::
  "('p, 'r) externals \<Rightarrow> real list \<Rightarrow> real list list \<Rightarrow> bool \<Rightarrow> real
     \<Rightarrow> error + (npfloat \<times> npfloat)" where
  "cross_val ext prices features ridge penalty =
     (case cross_val_loop ext penalty prices features (enumerate 0 features)
             (replicate (length prices) (Fin 0)) [] of
        Inl e \<Rightarrow> Inl e
      | Inr (predictions, percentage_errors) \<Rightarrow>
          let corr = corrcoef ext prices predictions in
          case average percentage_errors of
            Inl e \<Rightarrow> Inl e
          | Inr avg_pct_error \<Rightarrow> Inr (avg_pct_error, corr))"

subsection \<open>\<^verbatim>\<open>predict_price\<close>\<close>

text \<open>The arguments \<open>latitude\<close> and \<open>longitude\<close> as Python passes them: a number, or an
  object that \<^verbatim>\<open>float\<close> rejects (\<^verbatim>\<open>None\<close> stands for these).\<close>

datatype pyarg = PyNum real | PyNone

fun py_float :: "pyarg \<Rightarrow> error + real" where
  "py_float (PyNum x) = Inr x"
| "py_float PyNone = Inl TypeError"

text \<open>Line 21: the row that the module takes for the target.\<close>

definition is_target :: "real \<Rightarrow> real \<Rightarrow> date \<Rightarrow> string \<Rightarrow> sample \<Rightarrow> bool" where
  "is_target lat lon date ptype s =
     (between (latitude s) (lat - 1 / 10000000) (lat + 1 / 10000000) \<and>
      between (longitude s) (lon - 1 / 10000000) (lon + 1 / 10000000) \<and>
      date_of_transfer s = date \<and>
      property_type s = ptype)"

definition target_id_of :: "sample list \<Rightarrow> real \<Rightarrow> real \<Rightarrow> date \<Rightarrow> string \<Rightarrow> error + nat" where
  "target_id_of samples lat lon date ptype = idxmax (map (is_target lat lon date ptype) samples)"

text \<open>Lines 26 to 28: one query of the points of interest per sample, at the sample's
  own coordinates.\<close>

fun extract_pois :: "('p, 'r) externals \<Rightarrow> sample list \<Rightarrow> error + 'p list" where
  "extract_pois ext [] = Inr []"
| "extract_pois ext (s # rest) =
     (case count_pois ext (latitude s) (longitude s) of
        Inl e \<Rightarrow> Inl e
      | Inr pois \<Rightarrow>
          (case extract_pois ext rest of Inl e \<Rightarrow> Inl e | Inr others \<Rightarrow> Inr (pois # others)))"

text \<open>What the module prints.\<close>

datatype line =
    CollectingSamples
  | NumberOfSamples nat
  | ExtractingPois
  | Summary npfloat real npfloat npfloat npfloat
  | Diagnostic error

type_synonym prediction = "npfloat \<times> real \<times> npfloat \<times> npfloat"

text \<open>Lines 25 to 40, from the extraction of the points of interest to the prediction.\<close>

definition fit_and_predict ::
  "('p, 'r) externals \<Rightarrow> sample list \<Rightarrow> nat \<Rightarrow> bool \<Rightarrow> real \<Rightarrow> error + prediction" where
  "fit_and_predict ext samples target_id ridge penalty =
     (case extract_pois ext samples of Inl e \<Rightarrow> Inl e | Inr pois_by_features \<Rightarrow>
      let encoded_property_features = property_feature_map samples in
      case convert_to_principle_components ext pois_by_features encoded_property_features
             (95 / 100) of Inl e \<Rightarrow> Inl e | Inr features \<Rightarrow>
      case np_index features target_id of Inl e \<Rightarrow> Inl e | Inr target_features \<Rightarrow>
      case np_delete features target_id of Inl e \<Rightarrow> Inl e | Inr features \<Rightarrow>
      let prices = map price samples in
      case np_index prices target_id of Inl e \<Rightarrow> Inl e | Inr target_price \<Rightarrow>
      case np_delete prices target_id of Inl e \<Rightarrow> Inl e | Inr prices \<Rightarrow>
      case cross_val ext prices features ridge penalty of
        Inl e \<Rightarrow> Inl e | Inr (avg_percent_error, corr) \<Rightarrow>
      case ols_predict ext penalty prices features target_features of
        Inl e \<Rightarrow> Inl e | Inr prediction \<Rightarrow>
      Inr (prediction, target_price, avg_percent_error, corr))"

text \<open>The body of the \<^verbatim>\<open>try\<close>, lines 18 to 43: what it has printed, and what it returns
  or raises.\<close>

definition try_body ::
  "('p, 'r) externals \<Rightarrow> real \<Rightarrow> real \<Rightarrow> date \<Rightarrow> string \<Rightarrow> int \<Rightarrow> real \<Rightarrow> bool \<Rightarrow> real \<Rightarrow> bool
     \<Rightarrow> line list \<times> (error + prediction)" where
  "try_body ext lat lon date ptype date_range area_range ridge penalty verbose =
     (let out1 = (if verbose then [CollectingSamples] else []) in
      case snd (get_training_samples ext lat lon date ptype date_range area_range 500) of
        Inl e \<Rightarrow> (out1, Inl e) | Inr samples \<Rightarrow>
      case target_id_of samples lat lon date ptype of
        Inl e \<Rightarrow> (out1, Inl e) | Inr target_id \<Rightarrow>
      let out2 = out1 @ (if verbose then [NumberOfSamples (length samples), ExtractingPois]
                         else []) in
      case fit_and_predict ext samples target_id ridge penalty of
        Inl e \<Rightarrow> (out2, Inl e)
      | Inr (prediction, target_price, avg_percent_error, corr) \<Rightarrow>
          (out2 @ (if verbose
                   then [Summary prediction target_price
                           (percentage_error_of prediction target_price) avg_percent_error corr]
                   else []),
           Inr (prediction, target_price, avg_percent_error, corr)))"

text \<open>
  Lines 14 to 46. The two conversions of lines 15 and 16 stand before the \<^verbatim>\<open>try\<close>. The
  result is what the call has printed and how it ends: \<open>Inl e\<close> when the exception \<open>e\<close>
  leaves the function, \<open>Inr None\<close> when the handler of line 44 has run and the function
  returns nothing, \<open>Inr (Some r)\<close> when it returns the tuple \<open>r\<close>.
\<close>

definition predict_price ::
  "('p, 'r) externals \<Rightarrow> pyarg \<Rightarrow> pyarg \<Rightarrow> date \<Rightarrow> string \<Rightarrow> int \<Rightarrow> real \<Rightarrow> bool \<Rightarrow> real \<Rightarrow> bool
     \<Rightarrow> line list \<times> (error + prediction option)" where
  "predict_price ext lat_arg lon_arg date ptype date_range area_range ridge penalty verbose =
     (case py_float lat_arg of Inl e \<Rightarrow> ([], Inl e) | Inr lat \<Rightarrow>
      case py_float lon_arg of Inl e \<Rightarrow> ([], Inl e) | Inr lon \<Rightarrow>
      case try_body ext lat lon date ptype date_range area_range ridge penalty verbose of
        (out, Inl e) \<Rightarrow> (out @ [Diagnostic e], Inr None)
      | (out, Inr r) \<Rightarrow> (out, Inr (Some r)))"

subsection \<open>Concrete collaborators for the examples\<close>

text \<open>
  The examples below run the module on small tables. Their regression has one feature
  column: for a one-column design the fit of \<^verbatim>\<open>fit_regularized(alpha, L1_wt=0)\<close> is the
  closed form \<open>b = (\<Sum> x y) / (\<Sum> x x + alpha n)\<close>, and the prediction for the feature
  \<open>t\<close> is \<open>t b\<close>. Shapes that do not fit raise.
\<close>

definition one_column_ridge ::
  "real \<Rightarrow> real list \<Rightarrow> real list list \<Rightarrow> real list \<Rightarrow> error + npfloat" where
  "one_column_ridge alpha ys xss t =
     (if xss = [] \<or> length ys \<noteq> length xss \<or> \<not> list_all (\<lambda>xs. length xs = 1) xss
         \<or> length t \<noteq> 1
      then Inl ValueError
      else Inr (np_mul (Fin (hd t))
                  (np_div (Fin (sum_list (map (\<lambda>(y, xs). hd xs * y) (zip ys xss))))
                          (Fin (sum_list (map (\<lambda>xs. hd xs * hd xs) xss)
                                + alpha * real (length ys))))))"

definition example_credentials :: "string \<rightharpoonup> string" where
  "example_credentials =
     map_of [(''username'', ''reader''), (''password'', ''secret''), (''url'', ''localhost''),
             (''port'', ''3306''), (''name'', ''property_prices'')]"

text \<open>A data source that holds the rows \<open>table\<close> and answers every query with its first
  \<open>limit\<close> rows; one point-of-interest count per sample; a principal component analysis
  that keeps one constant component. No example reads the correlation coefficient: the
  field is filled with \<open>nan\<close> and the examples leave it out of what they state.\<close>

definition example_externals :: "sample list \<Rightarrow> (nat, sample list) externals" where
  "example_externals table =
     \<lparr> get_credentials = Inr example_credentials,
       create_connection = (\<lambda>user password host port database. Inr ()),
       query_table = (\<lambda>conditions limit. Inr (take limit table)),
       price_coordinates_data_to_df = (\<lambda>rows. Inr rows),
       count_pois = (\<lambda>lat lon. Inr 1),
       fit_pca = (\<lambda>pois_by_features encoded_property_features.
                    Inr \<lparr> explained_variance_ratio = [Fin 1],
                          transformed = map (\<lambda>pois. [1]) pois_by_features \<rparr>),
       ols_predict = one_column_ridge,
       corrcoef = (\<lambda>prices predictions. NaN) \<rparr>"

text \<open>A detached house sold on day \<open>date\<close> at the coordinates \<open>(lat, lon)\<close>.\<close>

definition house :: "real \<Rightarrow> real \<Rightarrow> date \<Rightarrow> real \<Rightarrow> sample" where
  "house lat lon date amount =
     \<lparr> latitude = lat, longitude = lon, date_of_transfer = date, property_type = ''D'',
       price = amount, new_build_flag = ''N'', tenure_type = ''F'' \<rparr>"

section \<open>Properties\<close>

subsection \<open>Auxiliary facts\<close>

lemma first_max_props:
  "True \<in> set bs \<Longrightarrow>
     first_max bs < length bs \<and> bs ! first_max bs \<and> (\<forall>j<first_max bs. \<not> bs ! j)"
proof (induction bs)
  case Nil
  then show ?case by simp
next
  case (Cons b bs)
  show ?case
  proof (cases b)
    case True
    then show ?thesis by simp
  next
    case False
    with Cons.prems have mem: "True \<in> set bs" by auto
    from Cons.IH [OF mem] False mem show ?thesis
      by (auto simp: nth_Cons split: nat.splits)
  qed
qed

lemma first_max_none: "True \<notin> set bs \<Longrightarrow> first_max bs = 0"
  by (cases bs) auto

lemma np_cumsum_from_Fin:
  "np_cumsum_from (Fin a) (map Fin rs) =
     map (\<lambda>j. Fin (a + sum_list (take (Suc j) rs))) [0..<length rs]"
proof (induction rs arbitrary: a)
  case Nil
  then show ?case by simp
next
  case (Cons r rs)
  have "[0..<length (r # rs)] = 0 # map Suc [0..<length rs]"
    by (simp add: upt_conv_Cons map_Suc_upt del: upt_Suc)
  then show ?case
    by (simp add: Cons.IH comp_def add.assoc del: upt_Suc)
qed

lemma length_np_cumsum_from: "length (np_cumsum_from acc xs) = length xs"
  by (induction xs arbitrary: acc) simp_all

lemma idxmax_first_match:
  assumes "list_ex P xs"
  shows "\<exists>i. idxmax (map P xs) = Inr i \<and> i < length xs \<and> P (xs ! i) \<and> (\<forall>j<i. \<not> P (xs ! j))"
proof -
  from assms have mem: "True \<in> set (map P xs)" by (auto simp: list_ex_iff)
  then have ne: "map P xs \<noteq> []" by auto
  from first_max_props [OF mem]
  have "first_max (map P xs) < length xs" "P (xs ! first_max (map P xs))"
    "\<forall>j<first_max (map P xs). \<not> P (xs ! j)" by auto
  with ne show ?thesis by (auto simp: idxmax_def)
qed

lemma idxmax_no_match:
  assumes "xs \<noteq> []" and "list_all (\<lambda>x. \<not> P x) xs"
  shows "idxmax (map P xs) = Inr 0"
proof -
  from assms(2) have "True \<notin> set (map P xs)" by (auto simp: list_all_iff)
  from first_max_none [OF this] assms(1) show ?thesis by (simp add: idxmax_def)
qed

lemma try_body_result:
  "snd (try_body ext lat lon date ptype dr ar ridge penalty verbose) =
     (case snd (get_training_samples ext lat lon date ptype dr ar 500) of
        Inl e \<Rightarrow> Inl e
      | Inr samples \<Rightarrow>
          (case target_id_of samples lat lon date ptype of
             Inl e \<Rightarrow> Inl e
           | Inr target_id \<Rightarrow> fit_and_predict ext samples target_id ridge penalty))"
  by (simp add: try_body_def Let_def split: sum.splits prod.splits)

lemma predict_price_result:
  "snd (predict_price ext (PyNum lat) (PyNum lon) date ptype dr ar ridge penalty verbose) =
     (case snd (try_body ext lat lon date ptype dr ar ridge penalty verbose) of
        Inl e \<Rightarrow> Inr None | Inr r \<Rightarrow> Inr (Some r))"
  by (simp add: predict_price_def split: sum.splits prod.splits)

lemma example_externals_fields:
  "get_credentials (example_externals table) = Inr example_credentials"
  "create_connection (example_externals table) = (\<lambda>user password host port database. Inr ())"
  "query_table (example_externals table) = (\<lambda>conditions limit. Inr (take limit table))"
  "price_coordinates_data_to_df (example_externals table) = Inr"
  "count_pois (example_externals table) = (\<lambda>lat lon. Inr 1)"
  "fit_pca (example_externals table) =
     (\<lambda>pois_by_features encoded_property_features.
        Inr \<lparr> explained_variance_ratio = [Fin 1],
              transformed = map (\<lambda>pois. [1]) pois_by_features \<rparr>)"
  "ols_predict (example_externals table) = one_column_ridge"
  "corrcoef (example_externals table) = (\<lambda>prices predictions. NaN)"
  by (simp_all add: example_externals_def)

lemma example_connect: "connect (example_externals table) example_credentials = Inr ()"
  by (simp add: connect_def dict_get_def example_credentials_def example_externals_fields)

lemma example_samples:
  "length table \<le> limit \<Longrightarrow> list_all (\<lambda>s. property_type s = ptype) table \<Longrightarrow>
   get_training_samples (example_externals table) lat lon date ptype dr ar limit =
     (ConnClosed, Inr table)"
  by (simp add: get_training_samples_def example_connect example_externals_fields list_all_iff)

subsection \<open>The component count\<close>

text \<open>
  C1, as the code has it. Let \<open>explained_variance\<close> be the running sums of line 93, so
  that its entry \<open>k - 1\<close> is the cumulative explained-variance ratio at \<open>k\<close> components.
  When some entry strictly exceeds the threshold, the count \<open>k\<close> that line 94 chooses is
  the smallest one whose cumulative ratio exceeds the threshold: the entry at \<open>k\<close>
  exceeds it and no entry before does. When no entry exceeds the threshold (a threshold
  of 1 or more, or ratios that are \<open>nan\<close>), \<^verbatim>\<open>argmax\<close> of the all-false array is 0 and
  \<open>k = 1\<close>.
\<close>

theorem cutoff_smallest_exceeding:
  assumes nonempty: "ratios \<noteq> []"
  shows "\<exists>k. cutoff_of ratios threshold = Inr k \<and> 1 \<le> k \<and> k \<le> length ratios \<and>
           (if list_ex (\<lambda>v. np_greater v threshold) (np_cumsum_from (Fin 0) ratios)
            then np_greater (np_cumsum_from (Fin 0) ratios ! (k - 1)) threshold \<and>
                 (\<forall>j. 1 \<le> j \<and> j < k \<longrightarrow>
                    \<not> np_greater (np_cumsum_from (Fin 0) ratios ! (j - 1)) threshold)
            else k = 1)"
proof -
  define ev where "ev = np_cumsum_from (Fin 0) ratios"
  define bs where "bs = map (\<lambda>v. np_greater v threshold) ev"
  have len: "length bs = length ratios" by (simp add: bs_def ev_def length_np_cumsum_from)
  with nonempty have ne: "bs \<noteq> []" by auto
  have cut: "cutoff_of ratios threshold = Inr (first_max bs + 1)"
    using ne by (simp add: cutoff_of_def np_argmax_def bs_def ev_def Let_def)
  have ex: "list_ex (\<lambda>v. np_greater v threshold) ev = (True \<in> set bs)"
    by (auto simp: bs_def list_ex_iff)
  show ?thesis
  proof (cases "True \<in> set bs")
    case True
    from first_max_props [OF True] len
    have lt: "first_max bs < length ratios" and hit: "bs ! first_max bs"
      and before: "\<And>j. j < first_max bs \<Longrightarrow> \<not> bs ! j" by auto
    from lt len have "first_max bs < length ev" by (simp add: bs_def)
    with hit have a: "np_greater (ev ! first_max bs) threshold" by (simp add: bs_def)
    have b: "\<not> np_greater (ev ! (j - 1)) threshold" if "1 \<le> j" "j < first_max bs + 1" for j
    proof -
      from that have i: "j - 1 < first_max bs" by simp
      with lt len have "j - 1 < length ev" by (simp add: bs_def)
      with before [OF i] show ?thesis by (simp add: bs_def)
    qed
    from True a b cut lt show ?thesis
      unfolding ev_def [symmetric] ex by auto
  next
    case False
    from first_max_none [OF False] cut nonempty False show ?thesis
      unfolding ev_def [symmetric] ex by (cases ratios) auto
  qed
qed

text \<open>Three components with the ratios 0.6, 0.3 and 0.1 at the default threshold: the
  first two reach 0.9 only, so all three are kept.\<close>

theorem cutoff_smallest_exceeding_witness:
  "cutoff_of [Fin (3 / 5), Fin (3 / 10), Fin (1 / 10)] (95 / 100) = Inr 3 \<and>
   np_cumsum_from (Fin 0) [Fin (3 / 5), Fin (3 / 10), Fin (1 / 10)]
     = [Fin (3 / 5), Fin (9 / 10), Fin 1] \<and>
   np_greater (Fin 1) (95 / 100) \<and>
   \<not> np_greater (Fin (9 / 10)) (95 / 100) \<and>
   \<not> np_greater (Fin (3 / 5)) (95 / 100)"
  using cutoff_smallest_exceeding [of "[Fin (3 / 5), Fin (3 / 10), Fin (1 / 10)]" "95 / 100"]
  by (simp add: cutoff_of_def np_argmax_def)

text \<open>The claim as the specification words it fails for the threshold 1: with the
  ratios 0.6 and 0.4 the running sums are 0.6 and 1, none exceeds 1, the count is 1, and
  the cumulative ratio at 1 is 0.6.\<close>

theorem cutoff_threshold_one_counterexample:
  "cutoff_of [Fin (3 / 5), Fin (2 / 5)] 1 = Inr 1 \<and>
   np_cumsum_from (Fin 0) [Fin (3 / 5), Fin (2 / 5)] = [Fin (3 / 5), Fin 1] \<and>
   \<not> np_greater (Fin (3 / 5)) 1"
  by (simp add: cutoff_of_def np_argmax_def)

text \<open>Two more cases of the theorem. With ratios that are \<open>nan\<close> no running sum exceeds
  any threshold, and the count is 1 at the default threshold too. With finite ratios that
  sum to 1 and a threshold below 1, the last running sum exceeds the threshold, so the
  first case of the theorem applies.\<close>

lemma cutoff_nan_ratios: "cutoff_of [NaN, NaN] (95 / 100) = Inr 1"
  by (simp add: cutoff_of_def np_argmax_def)

lemma finite_ratios_exceed:
  assumes "rs \<noteq> []" and "sum_list rs = 1" and "threshold < 1"
  shows "list_ex (\<lambda>v. np_greater v threshold) (np_cumsum_from (Fin 0) (map Fin rs))"
proof -
  from assms(1) have last: "length rs - 1 < length rs" by (cases rs) auto
  have "Suc (length rs - 1) = length rs" using assms(1) by (cases rs) auto
  then have "np_cumsum_from (Fin 0) (map Fin rs) ! (length rs - 1) = Fin 1"
    using last assms(2) by (simp add: np_cumsum_from_Fin del: upt_Suc)
  moreover have "length rs - 1 < length (np_cumsum_from (Fin 0) (map Fin rs))"
    using last by (simp add: length_np_cumsum_from)
  ultimately have "Fin 1 \<in> set (np_cumsum_from (Fin 0) (map Fin rs))"
    by (metis nth_mem)
  with assms(3) show ?thesis by (auto simp: list_ex_iff intro: bexI [of _ "Fin 1"])
qed

subsection \<open>The target row\<close>

text \<open>
  C3, as the code has it. When some row of the sample table lies within \<open>1e-7\<close> degrees
  of the requested latitude and longitude and has exactly the requested date and property
  type, the row that line 21 identifies is the first such row: its coordinates are within
  the tolerance and its date and type are the requested ones, so a row with another date
  is not taken for it.
\<close>

theorem target_id_first_match:
  assumes "list_ex (is_target lat lon date ptype) samples"
  shows "\<exists>i. target_id_of samples lat lon date ptype = Inr i \<and> i < length samples \<and>
           \<bar>latitude (samples ! i) - lat\<bar> \<le> 1 / 10000000 \<and>
           \<bar>longitude (samples ! i) - lon\<bar> \<le> 1 / 10000000 \<and>
           date_of_transfer (samples ! i) = date \<and>
           property_type (samples ! i) = ptype \<and>
           (\<forall>j<i. \<not> is_target lat lon date ptype (samples ! j))"
proof -
  from idxmax_first_match [OF assms] obtain i where
    i: "idxmax (map (is_target lat lon date ptype) samples) = Inr i" "i < length samples"
       "is_target lat lon date ptype (samples ! i)"
       "\<forall>j<i. \<not> is_target lat lon date ptype (samples ! j)" by blast
  from i(3) have "\<bar>latitude (samples ! i) - lat\<bar> \<le> 1 / 10000000"
    unfolding is_target_def between_def by linarith
  moreover from i(3) have "\<bar>longitude (samples ! i) - lon\<bar> \<le> 1 / 10000000"
    unfolding is_target_def between_def by linarith
  moreover from i(3) have "date_of_transfer (samples ! i) = date"
    "property_type (samples ! i) = ptype"
    by (simp_all add: is_target_def)
  ultimately show ?thesis using i by (auto simp: target_id_of_def)
qed

text \<open>Three sales at the requested coordinates, the first on another day: the second
  row is the target.\<close>

theorem target_id_first_match_witness:
  "list_ex (is_target (103 / 2) 0 1 ''D'')
     [house (103 / 2) 0 2 100, house (103 / 2) 0 1 200, house (103 / 2) 0 1 300] \<and>
   target_id_of [house (103 / 2) 0 2 100, house (103 / 2) 0 1 200, house (103 / 2) 0 1 300]
     (103 / 2) 0 1 ''D'' = Inr 1"
  using target_id_first_match [of "103 / 2" 0 1 "''D''"
      "[house (103 / 2) 0 2 100, house (103 / 2) 0 1 200, house (103 / 2) 0 1 300]"]
  by (simp add: target_id_of_def idxmax_def is_target_def between_def house_def)

text \<open>The claim as the specification words it, for every sample table, fails when no row
  matches: the only row has the requested coordinates and another date, and line 21
  selects it.\<close>

theorem target_id_other_date_counterexample:
  "target_id_of [house (103 / 2) 0 2 100] (103 / 2) 0 1 ''D'' = Inr 0 \<and>
   \<bar>latitude ([house (103 / 2) 0 2 100] ! 0) - 103 / 2\<bar> \<le> 1 / 100000000 \<and>
   \<bar>longitude ([house (103 / 2) 0 2 100] ! 0) - 0\<bar> \<le> 1 / 100000000 \<and>
   date_of_transfer ([house (103 / 2) 0 2 100] ! 0) \<noteq> 1"
  by (simp add: target_id_of_def idxmax_def is_target_def between_def house_def)

text \<open>
  C4. When the sample table is not empty and no row satisfies the predicate of line 21,
  \<^verbatim>\<open>idxmax\<close> of the all-false series is the label of the first row: no exception is
  raised there, and \<open>predict_price\<close> ends as the rest of the pipeline ends with row 0 as the
  target.
\<close>

theorem target_id_no_match_first_row:
  assumes got: "snd (get_training_samples ext lat lon date ptype dr ar 500) = Inr samples"
    and nonempty: "samples \<noteq> []"
    and nomatch: "list_all (\<lambda>s. \<not> is_target lat lon date ptype s) samples"
  shows "target_id_of samples lat lon date ptype = Inr 0 \<and>
         snd (predict_price ext (PyNum lat) (PyNum lon) date ptype dr ar ridge penalty verbose) =
           (case fit_and_predict ext samples 0 ridge penalty of
              Inl e \<Rightarrow> Inr None | Inr r \<Rightarrow> Inr (Some r))"
proof -
  have t: "target_id_of samples lat lon date ptype = Inr 0"
    unfolding target_id_of_def by (rule idxmax_no_match [OF nonempty nomatch])
  then show ?thesis
    by (simp add: predict_price_result try_body_result got)
qed

text \<open>Three sales on day 2 and a request for day 1: row 0 is removed as the target, its
  price 100 is reported as the actual price, and the prediction 250 is the mean of the
  other two.\<close>

theorem target_id_no_match_first_row_witness:
  "target_id_of [house (103 / 2) 0 2 100, house (103 / 2) 0 2 200, house (103 / 2) 0 2 300]
     (103 / 2) 0 1 ''D'' = Inr 0 \<and>
   map_sum id (map_option (\<lambda>(prediction, target_price, avg_percent_error, corr).
                              (prediction, target_price, avg_percent_error)))
     (snd (predict_price
             (example_externals
                [house (103 / 2) 0 2 100, house (103 / 2) 0 2 200, house (103 / 2) 0 2 300])
             (PyNum (103 / 2)) (PyNum 0) 1 ''D'' 28 (1 / 50) False 0 True)) =
     Inr (Some (Fin 250, 100, Fin (125 / 3)))"
proof -
  let ?t = "[house (103 / 2) 0 2 100, house (103 / 2) 0 2 200, house (103 / 2) 0 2 300]"
  have got: "snd (get_training_samples (example_externals ?t) (103 / 2) 0 1 ''D'' 28 (1 / 50) 500)
               = Inr ?t"
    by (subst example_samples) (simp_all add: house_def)
  have ne: "?t \<noteq> []" by simp
  have nomatch: "list_all (\<lambda>s. \<not> is_target (103 / 2) 0 1 ''D'' s) ?t"
    by (simp add: is_target_def house_def)
  have fit: "\<exists>corr. fit_and_predict (example_externals ?t) ?t 0 False 0 =
               Inr (Fin 250, 100, Fin (125 / 3), corr)"
    by (simp add: fit_and_predict_def example_externals_fields(1-7) house_def
          convert_to_principle_components_def cutoff_of_def np_argmax_def np_index_def
          np_delete_def cross_val_def leave_one_out_def percentage_error_of_def np_sub_def
          one_column_ridge_def average_def py_sum_def Let_def)
  from target_id_no_match_first_row [OF got ne nomatch, of False 0 True] fit
  show ?thesis by auto
qed

subsection \<open>The connection\<close>

text \<open>
  C8, as the code has it. Once the connection is open, \<open>get_training_samples\<close> leaves it
  closed exactly when it returns the samples; when the query or the conversion of line 77
  raises, line 78 is not reached and the function exits with the connection open.
\<close>

theorem connection_closed_iff_returned:
  assumes "get_credentials ext = Inr credentials"
    and "connect ext credentials = Inr conn"
  shows "fst (get_training_samples ext lat lon date ptype dr ar limit) =
           (case snd (get_training_samples ext lat lon date ptype dr ar limit) of
              Inl e \<Rightarrow> ConnOpen
            | Inr samples \<Rightarrow> ConnClosed)"
  using assms by (simp add: get_training_samples_def Let_def split: sum.splits)

text \<open>A data source with two sales: the call returns both and has closed the
  connection.\<close>

theorem connection_closed_iff_returned_witness:
  "get_training_samples (example_externals [house (103 / 2) 0 1 100, house (103 / 2) 0 3 200])
     (103 / 2) 0 1 ''D'' 28 (1 / 50) 500 =
     (ConnClosed, Inr [house (103 / 2) 0 1 100, house (103 / 2) 0 3 200])"
proof -
  let ?t = "[house (103 / 2) 0 1 100, house (103 / 2) 0 3 200]"
  have r: "snd (get_training_samples (example_externals ?t) (103 / 2) 0 1 ''D'' 28 (1 / 50) 500)
             = Inr ?t"
    by (subst example_samples) (simp_all add: house_def)
  from connection_closed_iff_returned
         [of "example_externals ?t" example_credentials "()" "103 / 2" 0 1 "''D''" 28 "1 / 50" 500]
  have "fst (get_training_samples (example_externals ?t) (103 / 2) 0 1 ''D'' 28 (1 / 50) 500)
          = ConnClosed"
    by (simp add: example_externals_fields example_connect r)
  with r show ?thesis by (simp add: prod_eq_iff)
qed

text \<open>The claim as the specification words it fails when the query raises: the exception
  leaves the function and the connection is still open.\<close>

theorem connection_left_open_counterexample:
  "get_training_samples
     ((example_externals [house (103 / 2) 0 1 100])
        \<lparr> query_table := \<lambda>conditions limit. Inl (ExternalError ''server has gone away'') \<rparr>)
     (103 / 2) 0 1 ''D'' 28 (1 / 50) 500 =
     (ConnOpen, Inl (ExternalError ''server has gone away''))"
  by (simp add: get_training_samples_def connect_def dict_get_def example_credentials_def
        example_externals_def)

subsection \<open>The handler of \<^verbatim>\<open>predict_price\<close>\<close>

text \<open>
  C9, as the code has it. For numeric coordinates, an exception raised by any step inside
  the \<^verbatim>\<open>try\<close> of lines 17 to 43 does not leave \<open>predict_price\<close>: the function prints
  the diagnostic of line 45 after what the body had printed and returns nothing.
\<close>

theorem predict_price_reports_failure:
  assumes "snd (try_body ext lat lon date ptype dr ar ridge penalty verbose) = Inl e"
  shows "predict_price ext (PyNum lat) (PyNum lon) date ptype dr ar ridge penalty verbose =
           (fst (try_body ext lat lon date ptype dr ar ridge penalty verbose) @ [Diagnostic e],
            Inr None)"
  using assms
  by (cases "try_body ext lat lon date ptype dr ar ridge penalty verbose")
     (simp add: predict_price_def)

text \<open>A query that fails: the progress line, then the diagnostic, and no result.\<close>

theorem predict_price_reports_failure_witness:
  "predict_price
     ((example_externals [house (103 / 2) 0 1 100])
        \<lparr> query_table := \<lambda>conditions limit. Inl (ExternalError ''server has gone away'') \<rparr>)
     (PyNum (103 / 2)) (PyNum 0) 1 ''D'' 28 (1 / 50) False 0 True =
     ([CollectingSamples, Diagnostic (ExternalError ''server has gone away'')], Inr None)"
proof -
  let ?ext = "(example_externals [house (103 / 2) 0 1 100])
        \<lparr> query_table := \<lambda>conditions limit. Inl (ExternalError ''server has gone away'') \<rparr>"
  have body: "try_body ?ext (103 / 2) 0 1 ''D'' 28 (1 / 50) False 0 True =
                ([CollectingSamples], Inl (ExternalError ''server has gone away''))"
    by (simp add: try_body_def get_training_samples_def connect_def dict_get_def
          example_credentials_def example_externals_def)
  from predict_price_reports_failure
         [of ?ext "103 / 2" 0 1 "''D''" 28 "1 / 50" False 0 True
             "ExternalError ''server has gone away''"]
  show ?thesis by (simp only: body fst_conv snd_conv) simp
qed

text \<open>The claim as the specification words it, for any step of the function, fails at
  line 15: \<^verbatim>\<open>float(None)\<close> raises before the \<^verbatim>\<open>try\<close> is entered, nothing is printed
  and the exception leaves the function.\<close>

theorem predict_price_float_counterexample:
  "predict_price (example_externals [house (103 / 2) 0 1 100])
     PyNone (PyNum 0) 1 ''D'' 28 (1 / 50) False 0 True = ([], Inl TypeError)"
  by (simp add: predict_price_def)

subsection \<open>The encoded property features\<close>

text \<open>
  C10. The frame that \<open>property_feature_map\<close> returns has exactly the columns
  \<^verbatim>\<open>new_build_flag\<close> and \<^verbatim>\<open>tenure_type\<close>, none named \<^verbatim>\<open>freehold_flag\<close>: the rename of
  line 101 has no effect on it. Its cells are the categories with \<open>N\<close> mapped to 0, \<open>Y\<close>
  to 1, \<open>L\<close> to 0 and \<open>F\<close> to 1 (a cell with another category is kept as it is).
\<close>

theorem property_feature_map_columns:
  "columns (property_feature_map training_rows) = [''new_build_flag'', ''tenure_type''] \<and>
   ''freehold_flag'' \<notin> set (columns (property_feature_map training_rows)) \<and>
   property_feature_map training_rows =
     [(''new_build_flag'',
       map (\<lambda>s. if new_build_flag s = ''N'' then Num 0
                 else if new_build_flag s = ''Y'' then Num 1
                 else Str (new_build_flag s)) training_rows),
      (''tenure_type'',
       map (\<lambda>s. if tenure_type s = ''L'' then Num 0
                 else if tenure_type s = ''F'' then Num 1
                 else Str (tenure_type s)) training_rows)]"
  by (simp add: property_feature_map_def columns_def df_replace_def replace_cells_def Let_def)

text \<open>A freehold house that is not a new build, and a leasehold new build.\<close>

theorem property_feature_map_columns_witness:
  "property_feature_map
     [house (103 / 2) 0 1 100, (house (103 / 2) 0 3 200) \<lparr> new_build_flag := ''Y'', tenure_type := ''L'' \<rparr>] =
     [(''new_build_flag'', [Num 0, Num 1]), (''tenure_type'', [Num 1, Num 0])]"
  using property_feature_map_columns
          [of "[house (103 / 2) 0 1 100,
                (house (103 / 2) 0 3 200) \<lparr> new_build_flag := ''Y'', tenure_type := ''L'' \<rparr>]"]
  by (simp add: house_def)

subsection \<open>Auxiliary facts on the cross-validation loop\<close>

lemma cross_val_loop_complete:
  "list_all2 (\<lambda>it r. leave_one_out ext penalty prices features (fst it) (snd it) = Inr r)
     items rs \<Longrightarrow>
   \<exists>P. cross_val_loop ext penalty prices features items preds errs = Inr (P, errs @ map snd rs)"
proof (induction items arbitrary: rs preds errs)
  case Nil
  then show ?case by simp
next
  case (Cons it items)
  obtain i tf where it: "it = (i, tf)" by (cases it)
  from Cons.prems obtain r rs' where rs: "rs = r # rs'"
    and step: "leave_one_out ext penalty prices features i tf = Inr r"
    and rest: "list_all2 (\<lambda>it r. leave_one_out ext penalty prices features (fst it) (snd it) = Inr r)
                 items rs'"
    by (auto simp: it list_all2_Cons1)
  obtain pred pe where r: "r = (pred, pe)" by (cases r)
  from Cons.IH [OF rest, of "preds[i := pred]" "errs @ [pe]"] obtain P where
    "cross_val_loop ext penalty prices features items (preds[i := pred]) (errs @ [pe])
       = Inr (P, (errs @ [pe]) @ map snd rs')" by blast
  then show ?case using step by (simp add: it rs r)
qed

lemma cross_val_complete:
  assumes "list_all2 (\<lambda>it r. leave_one_out ext penalty prices features (fst it) (snd it) = Inr r)
             (enumerate 0 features) rs"
    and "features \<noteq> []"
  shows "\<exists>corr. cross_val ext prices features ridge penalty =
           Inr (np_div (py_sum (map snd rs)) (Fin (real (length features))), corr)"
proof -
  from assms(1) have len: "length rs = length features"
    by (auto dest: list_all2_lengthD)
  from cross_val_loop_complete [OF assms(1), of "replicate (length prices) (Fin 0)" "[]"]
  obtain P where "cross_val_loop ext penalty prices features (enumerate 0 features)
                    (replicate (length prices) (Fin 0)) [] = Inr (P, map snd rs)" by auto
  moreover from assms(2) len have "rs \<noteq> []" by auto
  ultimately show ?thesis using len
    by (simp add: cross_val_def average_def Let_def)
qed

lemma np_add_not_fin: "\<not> is_fin x \<or> \<not> is_fin y \<Longrightarrow> \<not> is_fin (np_add x y)"
  by (cases x; cases y) auto

lemma foldl_np_add_not_fin_acc: "\<not> is_fin a \<Longrightarrow> \<not> is_fin (foldl np_add a xs)"
  by (induction xs arbitrary: a) (auto simp: np_add_not_fin)

lemma py_sum_not_fin:
  assumes "x \<in> set xs" and "\<not> is_fin x"
  shows "\<not> is_fin (py_sum xs)"
proof -
  have "\<not> is_fin (foldl np_add a xs)" for a
    using assms(1)
  proof (induction xs arbitrary: a)
    case Nil
    then show ?case by simp
  next
    case (Cons y ys)
    show ?case
    proof (cases "x = y")
      case True
      with assms(2) have "\<not> is_fin (np_add a y)" by (simp add: np_add_not_fin)
      then show ?thesis by (simp add: foldl_np_add_not_fin_acc)
    next
      case False
      with Cons.prems have "x \<in> set ys" by simp
      from Cons.IH [OF this] show ?thesis by simp
    qed
  qed
  then show ?thesis by (simp add: py_sum_def)
qed

lemma np_div_not_fin: "\<not> is_fin x \<Longrightarrow> \<not> is_fin (np_div x (Fin b))"
  by (cases x) (auto simp: signed_inf_def)

lemma percentage_error_zero_price: "\<not> is_fin (percentage_error_of prediction 0)"
  by (cases prediction) (auto simp: percentage_error_of_def np_sub_def signed_inf_def)

lemmas example_eval =
  example_externals_fields(1-7) cross_val_def leave_one_out_def percentage_error_of_def np_sub_def
  np_index_def np_delete_def one_column_ridge_def average_def py_sum_def Let_def

lemma extract_pois_coordinates:
  "map latitude xs = map latitude ys \<Longrightarrow> map longitude xs = map longitude ys \<Longrightarrow>
   extract_pois ext xs = extract_pois ext ys"
proof (induction xs arbitrary: ys)
  case Nil
  then show ?case by simp
next
  case (Cons x xs)
  then obtain y ys' where ys: "ys = y # ys'" by (cases ys) auto
  with Cons.prems have "latitude x = latitude y" "longitude x = longitude y"
    "map latitude xs = map latitude ys'" "map longitude xs = map longitude ys'" by auto
  with Cons.IH [of ys'] show ?case by (simp add: ys split: sum.splits)
qed

lemma map_update_same:
  assumes eq: "f v = f (xs ! t)"
  shows "map f (xs[t := v]) = map f xs"
proof (rule nth_equalityI)
  show "length (map f (xs[t := v])) = length (map f xs)" by simp
next
  fix i assume "i < length (map f (xs[t := v]))"
  then have i: "i < length xs" by simp
  show "map f (xs[t := v]) ! i = map f xs ! i"
  proof (cases "i = t")
    case True
    with i eq show ?thesis by simp
  next
    case False
    with i show ?thesis by simp
  qed
qed

lemma np_delete_update: "np_delete (xs[t := v]) t = np_delete xs t"
  by (simp add: np_delete_def)

subsection \<open>A price of zero\<close>

text \<open>
  C2, as the code has it. \<open>cross_val\<close> does not check the prices. When an actual price is
  zero and every pass of the loop body returns (no fit raises), \<open>cross_val\<close> raises
  nothing: it returns, and the average percentage error that it returns is not a finite
  number (the division of line 61 by zero gives \<open>inf\<close> or \<open>nan\<close>, and the sum and the
  mean keep it).
\<close>

theorem cross_val_zero_price_returns:
  assumes passes: "\<forall>k<length features.
                     \<exists>r. leave_one_out ext penalty prices features k (features ! k) = Inr r"
    and i: "i < length features"
    and zero: "prices ! i = 0"
  shows "\<exists>avg corr. cross_val ext prices features ridge penalty = Inr (avg, corr) \<and> \<not> is_fin avg"
proof -
  define rs where
    "rs = map (\<lambda>k. projr (leave_one_out ext penalty prices features k (features ! k)))
            [0..<length features]"
  have len: "length rs = length features" by (simp add: rs_def)
  have step: "leave_one_out ext penalty prices features k (features ! k) = Inr (rs ! k)"
    if "k < length features" for k
    using passes that by (auto simp: rs_def simp del: upt_Suc)
  have all: "list_all2 (\<lambda>it r. leave_one_out ext penalty prices features (fst it) (snd it) = Inr r)
               (enumerate 0 features) rs"
    by (auto simp: list_all2_conv_all_nth len nth_enumerate_eq step)
  from i have ne: "features \<noteq> []" by auto
  from cross_val_complete [OF all ne] obtain corr where
    cv: "cross_val ext prices features ridge penalty =
           Inr (np_div (py_sum (map snd rs)) (Fin (real (length features))), corr)" by blast
  from step [OF i] zero have "\<exists>prediction. rs ! i = (prediction, percentage_error_of prediction 0)"
    by (auto simp: leave_one_out_def np_index_def split: sum.splits if_splits
          intro: exI sym)
  then obtain prediction where "snd (rs ! i) = percentage_error_of prediction 0" by auto
  moreover have "snd (rs ! i) \<in> set (map snd rs)" using i len by (simp add: nth_mem)
  ultimately have "\<not> is_fin (py_sum (map snd rs))"
    using py_sum_not_fin percentage_error_zero_price by metis
  then have "\<not> is_fin (np_div (py_sum (map snd rs)) (Fin (real (length features))))"
    by (rule np_div_not_fin)
  with cv show ?thesis by blast
qed

text \<open>Two samples of price zero with the same feature: each prediction is 0, each
  percentage error is \<open>0 / 0\<close>.\<close>

theorem cross_val_zero_price_returns_witness:
  "\<exists>avg corr. cross_val (example_externals []) [0, 0] [[1], [1]] False 0 = Inr (avg, corr) \<and>
               \<not> is_fin avg"
proof -
  have passes: "\<forall>k<length [[1], [1 :: real]].
                  \<exists>r. leave_one_out (example_externals []) 0 [0, 0] [[1], [1]] k
                         ([[1], [1]] ! k) = Inr r"
    by (auto simp: less_Suc_eq example_eval)
  show ?thesis
    by (rule cross_val_zero_price_returns [OF passes, of 0]) simp_all
qed

text \<open>The claim as the specification words it fails: with the prices 0, 100 and 100 and
  one constant feature, the prediction for the first sample is 100, its percentage error
  is \<open>10000 / 0\<close>, and \<open>cross_val\<close> returns the average \<open>inf\<close>.\<close>

theorem cross_val_zero_price_counterexample:
  "map_sum id fst (cross_val (example_externals []) [0, 100, 100] [[1], [1], [1]] False 0)
     = Inr PInf"
  by (simp add: example_eval signed_inf_def)

subsection \<open>Removing the target row\<close>

text \<open>
  C6, as the code has it. \<open>predict_price\<close> removes the target row from the prices and
  from the features before it cross-validates and fits (lines 32 and 35), so the
  prediction, the average cross-validated percentage error and the correlation that it
  returns do not depend on the price recorded for the target: only the reported actual
  price does. Nothing orders the average without the row against the average with it.
\<close>

theorem fit_and_predict_ignores_target_price:
  "map_sum id (\<lambda>(prediction, target_price, avg_percent_error, corr).
                 (prediction, avg_percent_error, corr))
     (fit_and_predict ext (samples[t := (samples ! t)\<lparr>price := p\<rparr>]) t ridge penalty) =
   map_sum id (\<lambda>(prediction, target_price, avg_percent_error, corr).
                 (prediction, avg_percent_error, corr))
     (fit_and_predict ext samples t ridge penalty)"
proof (cases "t < length samples")
  case False
  then show ?thesis by (simp add: list_update_beyond)
next
  case True
  let ?s = "samples[t := (samples ! t)\<lparr>price := p\<rparr>]"
  have coords: "map latitude ?s = map latitude samples" "map longitude ?s = map longitude samples"
    by (simp_all add: map_update_same)
  have pois: "extract_pois ext ?s = extract_pois ext samples"
    by (rule extract_pois_coordinates [OF coords])
  have "map (\<lambda>s. Str (new_build_flag s)) ?s = map (\<lambda>s. Str (new_build_flag s)) samples"
    "map (\<lambda>s. Str (tenure_type s)) ?s = map (\<lambda>s. Str (tenure_type s)) samples"
    by (simp_all add: map_update_same)
  then have enc: "property_feature_map ?s = property_feature_map samples"
    by (simp only: property_feature_map_def)
  have prices: "map price ?s = (map price samples)[t := p]"
    by (simp add: map_update)
  show ?thesis
    using True
    by (simp add: fit_and_predict_def pois enc prices np_delete_update np_index_def Let_def
          split: sum.splits prod.splits)
qed

text \<open>Three sales with one constant feature and row 0 the target: with the recorded
  price 150 or with 999 in its place, the prediction is 150 (the mean of 100 and 200) and
  the average cross-validated error is 75.\<close>

theorem fit_and_predict_ignores_target_price_witness:
  "map_sum id (\<lambda>(prediction, target_price, avg_percent_error, corr).
                 (prediction, avg_percent_error))
     (fit_and_predict (example_externals [])
        [house (103 / 2) 0 1 150, house (103 / 2) 0 2 100, house (103 / 2) 0 3 200] 0 False 0)
     = Inr (Fin 150, Fin 75) \<and>
   map_sum id (\<lambda>(prediction, target_price, avg_percent_error, corr).
                 (prediction, avg_percent_error))
     (fit_and_predict (example_externals [])
        ([house (103 / 2) 0 1 150, house (103 / 2) 0 2 100, house (103 / 2) 0 3 200]
           [0 := ([house (103 / 2) 0 1 150, house (103 / 2) 0 2 100, house (103 / 2) 0 3 200] ! 0)
                   \<lparr>price := 999\<rparr>]) 0 False 0)
     = Inr (Fin 150, Fin 75)"
proof -
  have "\<exists>corr. fit_and_predict (example_externals [])
          [house (103 / 2) 0 1 150, house (103 / 2) 0 2 100, house (103 / 2) 0 3 200] 0 False 0
        = Inr (Fin 150, 150, Fin 75, corr)"
    by (simp add: fit_and_predict_def house_def convert_to_principle_components_def
          cutoff_of_def np_argmax_def example_eval)
  then obtain corr where
    "fit_and_predict (example_externals [])
          [house (103 / 2) 0 1 150, house (103 / 2) 0 2 100, house (103 / 2) 0 3 200] 0 False 0
        = Inr (Fin 150, 150, Fin 75, corr)" ..
  with fit_and_predict_ignores_target_price
         [of "example_externals []"
             "[house (103 / 2) 0 1 150, house (103 / 2) 0 2 100, house (103 / 2) 0 3 200]"
             0 999 False 0]
  show ?thesis
    by (cases "fit_and_predict (example_externals [])
        ([house (103 / 2) 0 1 150, house (103 / 2) 0 2 100, house (103 / 2) 0 3 200]
           [0 := ([house (103 / 2) 0 1 150, house (103 / 2) 0 2 100, house (103 / 2) 0 3 200] ! 0)
                   \<lparr>price := 999\<rparr>]) 0 False 0") auto
qed

text \<open>The claim as the specification words it fails: with the prices 100, 200 and 150,
  one constant feature and the third row the target, the average cross-validated error
  is 37.5 with the row left in and 75 after its removal.\<close>

theorem cross_val_removal_counterexample:
  "np_delete [100, 200, 150 :: real] 2 = Inr [100, 200] \<and>
   np_delete [[1], [1], [1 :: real]] 2 = Inr [[1], [1]] \<and>
   map_sum id fst (cross_val (example_externals []) [100, 200] [[1], [1]] False 0)
     = Inr (Fin 75) \<and>
   map_sum id fst (cross_val (example_externals []) [100, 200, 150] [[1], [1], [1]] False 0)
     = Inr (Fin (75 / 2))"
  by (simp add: example_eval)

end
